theory Spec2Isabelle
  imports Main "HOL-Library.Sublist"
begin

section \<open>The data of \<^verbatim>\<open>executor/forking_runner.go\<close>\<close>

text \<open>
  A Go \<^verbatim>\<open>error\<close> is modelled by its text (what \<^verbatim>\<open>Error()\<close> returns, which is also
  what the verb \<^verbatim>\<open>%s\<close> prints); a function returning \<^verbatim>\<open>error\<close> returns
  \<open>error + unit\<close>, with \<open>Inr ()\<close> for \<^verbatim>\<open>nil\<close>. A \<^verbatim>\<open>time.Duration\<close> is a signed
  count of nanoseconds. Streams (\<^verbatim>\<open>io.ReadCloser\<close>, \<^verbatim>\<open>io.Writer\<close>, pipe ends) are
  modelled by their identity.
\<close>

type_synonym error = string
type_synonym Duration = int
type_synonym stream = nat

text \<open>
  \<^verbatim>\<open>FunctionRequest\<close> (lines 22-30). A nil slice, a nil interface and a nil pointer are
  \<open>None\<close>; a slice that is empty but not nil is \<open>Some []\<close>.
\<close>

record FunctionRequest =
  Process :: string
  ProcessArgs :: "string list"
  Environment :: "string list option"
  InputReader :: "stream option"
  OutputWriter :: "stream option"
  ContentLength :: "int option"

text \<open>\<^verbatim>\<open>ForkFunctionRunner\<close> (lines 33-37).\<close>

record ForkFunctionRunner =
  ExecTimeout :: Duration
  LogPrefix :: bool
  LogBufferSize :: int

section \<open>The standard library, as far as \<^verbatim>\<open>Run\<close> uses it\<close>

text \<open>
  \<^verbatim>\<open>context.Background()\<close> has no deadline; \<^verbatim>\<open>context.WithTimeout(parent, d)\<close> has the
  deadline \<open>d\<close> nanoseconds after its creation.
\<close>

datatype Context = Background | WithTimeout Duration

text \<open>The fields of \<^verbatim>\<open>exec.Cmd\<close> that \<^verbatim>\<open>Run\<close> sets, and the context of the command.\<close>

record Cmd =
  ctx :: Context
  Path :: string
  Args :: "string list"
  Env :: "string list option"
  Stdin :: "stream option"
  Stdout :: "stream option"
  Stderr :: "stream option"

text \<open>
  \<^verbatim>\<open>exec.CommandContext(ctx, name, arg...)\<close>: the command named \<open>name\<close>, whose argument
  vector is the name followed by the arguments; nothing else is set. (A name that
  cannot be resolved is reported by \<^verbatim>\<open>cmd.Start()\<close>.)
\<close>

definition CommandContext :: "Context \<Rightarrow> string \<Rightarrow> string list \<Rightarrow> Cmd" where
  "CommandContext c name arg =
     \<lparr>ctx = c, Path = name, Args = name # arg, Env = None,
      Stdin = None, Stdout = None, Stderr = None\<rparr>"

text \<open>How a child process ends when nobody kills it: \<^verbatim>\<open>os.ProcessState\<close>.\<close>

datatype ProcessState = Exited nat | Signaled string

text \<open>
  What the operating system and the child answer during one invocation. These are the
  inputs of \<^verbatim>\<open>Run\<close> that are not in its arguments:
  \<^item> \<open>Environ\<close>: the invoker's own environment, \<^verbatim>\<open>os.Environ()\<close>;
  \<^item> \<open>stderr_pipe\<close>: whether the pipe of \<^verbatim>\<open>cmd.StderrPipe()\<close> can be created, and the
    pipe when it can;
  \<^item> \<open>start_error\<close>: the error of \<^verbatim>\<open>cmd.Start()\<close>, \<open>None\<close> when the child starts;
  \<^item> \<open>exit_after\<close>: the nanoseconds after which the child ends by itself, counted from
    the creation of the context; \<open>None\<close> when it never does;
  \<^item> \<open>exit_state\<close>: how it ends then;
  \<^item> \<open>wait_error\<close>: the error of the operating system's wait for the child
    (\<^verbatim>\<open>os.Process.Wait\<close>), \<open>None\<close> when it succeeds;
  \<^item> \<open>copy_ends\<close>: whether the goroutines with which os/exec copies to and from the
    streams of the request come to an end once the child has ended. They do not while
    the input stream blocks in \<^verbatim>\<open>Read\<close>, or while another process holds the write end of
    the output pipe open;
  \<^item> \<open>copy_error\<close>: the first error of these goroutines, \<open>None\<close> when they all
    succeed;
  \<^item> \<open>since_start\<close>: what \<^verbatim>\<open>time.Since(start)\<close> reads on line 74;
  \<^item> \<open>seconds_2f\<close>: the text that the verb \<^verbatim>\<open>%.2f\<close> prints for the \<^verbatim>\<open>Seconds()\<close> of a
    duration. It is floating-point formatting of the fmt package, taken as given.
\<close>

record world =
  Environ :: "string list"
  stderr_pipe :: "error + stream"
  start_error :: "error option"
  exit_after :: "nat option"
  exit_state :: ProcessState
  wait_error :: "error option"
  copy_ends :: bool
  copy_error :: "error option"
  since_start :: Duration
  seconds_2f :: "Duration \<Rightarrow> string"

text \<open>
  \<^verbatim>\<open>cmd.StderrPipe()\<close> makes a new pipe the child's standard error and returns the
  end to read it from; when the pipe cannot be created it returns \<^verbatim>\<open>(nil, err)\<close> and
  leaves the command as it was.
\<close>

definition StderrPipe :: "Cmd \<Rightarrow> world \<Rightarrow> (stream option \<times> error option) \<times> Cmd" where
  "StderrPipe c w =
     (case stderr_pipe w of
        Inl e \<Rightarrow> ((None, Some e), c)
      | Inr p \<Rightarrow> ((Some p, None), c\<lparr>Stderr := Some p\<rparr>))"

text \<open>\<^verbatim>\<open>cmd.Start()\<close>: \<open>None\<close> is \<^verbatim>\<open>nil\<close>, the child runs.\<close>

definition Start :: "Cmd \<Rightarrow> world \<Rightarrow> error option" where
  "Start c w = start_error w"

text \<open>
  The environment the child observes. The documentation of \<^verbatim>\<open>exec.Cmd.Env\<close>: ``If Env
  is nil, the new process uses the current process's environment''; otherwise the
  entries of \<^verbatim>\<open>Env\<close> are the environment (on a Unix host; of entries with the same key
  os/exec passes the last one only, which is not modelled).
\<close>

definition child_environ :: "Cmd \<Rightarrow> world \<Rightarrow> string list" where
  "child_environ c w = (case Env c of None \<Rightarrow> Environ w | Some es \<Rightarrow> es)"

text \<open>
  A command made by \<^verbatim>\<open>exec.CommandContext\<close> is killed (\<^verbatim>\<open>os.Process.Kill\<close>) when its
  context is done before the child has ended by itself.
\<close>

definition deadline_kills :: "Context \<Rightarrow> world \<Rightarrow> bool" where
  "deadline_kills c w =
     (case c of
        Background \<Rightarrow> False
      | WithTimeout d \<Rightarrow> (case exit_after w of None \<Rightarrow> True | Some t \<Rightarrow> d \<le> int t))"

text \<open>Decimal digits of a natural number, as \<^verbatim>\<open>strconv.Itoa\<close> prints them.\<close>

fun decimal :: "nat \<Rightarrow> string" where
  "decimal n =
     (if n < 10 then [''0123456789'' ! n]
      else decimal (n div 10) @ [''0123456789'' ! (n mod 10)])"

declare decimal.simps [simp del]

text \<open>
  The text of an \<^verbatim>\<open>*exec.ExitError\<close> is \<^verbatim>\<open>ProcessState.String()\<close>; a state with exit
  status 0 is a success and makes no error.
\<close>

fun state_error :: "ProcessState \<Rightarrow> error option" where
  "state_error (Exited n) = (if n = 0 then None else Some (''exit status '' @ decimal n))"
| "state_error (Signaled s) = Some (''signal: '' @ s)"

text \<open>
  os/exec copies through a goroutine for every stream attached to \<^verbatim>\<open>Stdin\<close> or
  \<^verbatim>\<open>Stdout\<close> (for one that is an \<^verbatim>\<open>*os.File\<close> there is nothing to copy: such a world
  has \<open>copy_ends\<close> and no \<open>copy_error\<close>). The pipe of \<^verbatim>\<open>StderrPipe\<close> is read by the
  caller, not by os/exec.
\<close>

definition copies :: "Cmd \<Rightarrow> bool" where
  "copies c = (Stdin c \<noteq> None \<or> Stdout c \<noteq> None)"

text \<open>
  \<^verbatim>\<open>cmd.Wait()\<close>. The outer \<open>None\<close>: the call never returns. It first waits for the
  child to end, by itself or killed at the deadline, and then for the copying: the
  documentation of \<^verbatim>\<open>exec.Cmd.Wait\<close> says ``If any of c.Stdin, c.Stdout or c.Stderr are
  not an *os.File, Wait also waits for the respective I/O loop copying to or from the
  process to complete'', and \<^verbatim>\<open>Run\<close> sets no \<^verbatim>\<open>WaitDelay\<close> that would bound this. The
  error it returns then is, in this order: the error of the wait itself; the
  \<^verbatim>\<open>*exec.ExitError\<close> of a child that was killed or did not end with success; the error
  of the copying (``The returned error is nil if the command runs, has no problems
  copying stdin, stdout, and stderr, and exits with a zero exit status'').
\<close>

definition Wait :: "Cmd \<Rightarrow> world \<Rightarrow> error option option" where
  "Wait c w =
     (if \<not> deadline_kills (ctx c) w \<and> exit_after w = None then None
      else if copies c \<and> \<not> copy_ends w then None
      else Some
        (case wait_error w of
           Some e \<Rightarrow> Some e
         | None \<Rightarrow>
             if deadline_kills (ctx c) w then Some ''signal: killed''
             else (case state_error (exit_state w) of
                     Some e \<Rightarrow> Some e
                   | None \<Rightarrow> if copies c then copy_error w else None)))"

section \<open>\<^verbatim>\<open>ForkFunctionRunner.Run\<close>\<close>

text \<open>
  What \<^verbatim>\<open>Run\<close> does to the outside, in the order it does it. \<open>BindLoggingPipe\<close> is
  the call of \<^verbatim>\<open>bindLoggingPipe\<close> with its name, its source, the prefix flag and the
  buffer size (its sink is always \<^verbatim>\<open>os.Stderr\<close>); \<open>CmdStart\<close> carries the command as it
  is when \<^verbatim>\<open>cmd.Start()\<close> is called; \<open>Close\<close> is \<^verbatim>\<open>req.InputReader.Close()\<close> and
  \<open>Cancel\<close> the \<^verbatim>\<open>cancel\<close> of the deadline context. The stream binder itself is not
  part of this file: by its contract it relays concurrently, so the call returns at once
  and \<^verbatim>\<open>Run\<close> goes on.
\<close>

datatype event =
    Log string
  | NewTimeoutContext Duration
  | BindLoggingPipe string "stream option" bool int
  | CmdStart Cmd
  | CmdWait
  | Close stream
  | Cancel

text \<open>
  \<^verbatim>\<open>Run\<close> (lines 40-82). The first component of the result is what \<^verbatim>\<open>Run\<close> returns,
  \<open>None\<close> when it never returns (it blocks in \<^verbatim>\<open>cmd.Wait()\<close> for ever, and its deferred
  calls never run); the second is the events up to there. The lists \<open>d1\<close> and \<open>d2\<close>
  are the stack of deferred calls (lines 49 and 57): the call deferred last is first,
  and a return runs them in that order.
\<close>

definition Run :: "ForkFunctionRunner \<Rightarrow> FunctionRequest \<Rightarrow> world \<Rightarrow>
    (error + unit) option \<times> event list" where
  "Run f req w =
     (let t1 = [Log (''Running: '' @ Process req)];
          (c, t2, d1) =
            (if ExecTimeout f > 0
             then (WithTimeout (ExecTimeout f),
                   t1 @ [NewTimeoutContext (ExecTimeout f)], [Cancel])
             else (Background, t1, []));
          cmd1 = CommandContext c (Process req) (ProcessArgs req);
          (cmd2, d2) =
            (case InputReader req of
               Some r \<Rightarrow> (cmd1\<lparr>Stdin := Some r\<rparr>, Close r # d1)
             | None \<Rightarrow> (cmd1, d1));
          cmd3 = cmd2\<lparr>Env := Environment req\<rparr>;
          cmd4 = cmd3\<lparr>Stdout := OutputWriter req\<rparr>;
          ((errPipe, _), cmd5) = StderrPipe cmd4 w;
          t3 = t2 @ [BindLoggingPipe ''stderr'' errPipe (LogPrefix f) (LogBufferSize f)]
      in case Start cmd5 w of
           Some err \<Rightarrow> (Some (Inl err), t3 @ [CmdStart cmd5] @ d2)
         | None \<Rightarrow>
             (case Wait cmd5 w of
                None \<Rightarrow> (None, t3 @ [CmdStart cmd5, CmdWait])
              | Some werr \<Rightarrow>
                  (let done = since_start w in
                   case werr of
                     Some err \<Rightarrow>
                       (Some (Inl (Process req @ '' exited: after '' @ seconds_2f w done @
                                   ''s, error: '' @ err)),
                        t3 @ [CmdStart cmd5, CmdWait] @ d2)
                   | None \<Rightarrow>
                       (Some (Inr ()),
                        t3 @ [CmdStart cmd5, CmdWait,
                              Log (Process req @ '' done: '' @ seconds_2f w done @ ''s secs'')]
                           @ d2))))"

section \<open>Concrete invocations\<close>

text \<open>
  A formatter for the examples: the seconds of a non-negative duration, rounded to two
  decimals. It prints what \<^verbatim>\<open>%.2f\<close> prints for the durations used below.
\<close>

definition example_seconds_2f :: "Duration \<Rightarrow> string" where
  "example_seconds_2f d =
     (let h = nat ((d + 5000000) div 10000000)
      in decimal (h div 100) @ ''.'' @ decimal (h div 10 mod 10) @ decimal (h mod 10))"

text \<open>A runner with a timeout of ten seconds, and one with the timeout disabled.\<close>

definition example_runner :: ForkFunctionRunner where
  "example_runner = \<lparr>ExecTimeout = 10000000000, LogPrefix = True, LogBufferSize = 65536\<rparr>"

definition untimed_runner :: ForkFunctionRunner where
  "untimed_runner = \<lparr>ExecTimeout = 0, LogPrefix = False, LogBufferSize = 65536\<rparr>"

text \<open>A request with an input stream, an output sink and an empty environment.\<close>

definition example_request :: FunctionRequest where
  "example_request =
     \<lparr>Process = ''/bin/cat'', ProcessArgs = [''-n''], Environment = Some [],
      InputReader = Some 0, OutputWriter = Some 1, ContentLength = Some 5\<rparr>"

text \<open>
  A world in which the child starts, ends by itself after 30 ms with status 0, and all
  copying succeeds. The other worlds change one answer each: the sink fails, the input
  stream blocks in \<^verbatim>\<open>Read\<close> for ever, the wait for the child fails, the child cannot be
  started, the child never ends, the child never ends and has passed its output pipe to
  a process that keeps it open, the pipe cannot be created.
\<close>

definition example_world :: world where
  "example_world =
     \<lparr>Environ = [''PATH=/usr/bin'', ''HOME=/root''], stderr_pipe = Inr 2,
      start_error = None, exit_after = Some 30000000, exit_state = Exited 0,
      wait_error = None, copy_ends = True, copy_error = None,
      since_start = 31000000, seconds_2f = example_seconds_2f\<rparr>"

definition sink_fails_world :: world where
  "sink_fails_world = example_world\<lparr>copy_error := Some ''write: broken pipe''\<rparr>"

definition reader_blocks_world :: world where
  "reader_blocks_world = example_world\<lparr>copy_ends := False\<rparr>"

definition wait_fails_world :: world where
  "wait_fails_world = example_world\<lparr>wait_error := Some ''wait: no child processes''\<rparr>"

definition no_start_world :: world where
  "no_start_world =
     example_world\<lparr>start_error := Some ''fork/exec /bin/cat: permission denied'',
                    since_start := 2000000\<rparr>"

definition sleeper_world :: world where
  "sleeper_world = example_world\<lparr>exit_after := None, since_start := 10004000000\<rparr>"

definition pipe_held_world :: world where
  "pipe_held_world =
     example_world\<lparr>exit_after := None, copy_ends := False, since_start := 10004000000\<rparr>"

definition no_pipe_world :: world where
  "no_pipe_world = example_world\<lparr>stderr_pipe := Inl ''pipe2: too many open files''\<rparr>"

section \<open>The conditions of the properties\<close>

text \<open>
  The child ends by itself with status 0, and before the deadline when there is one
  (a timeout that is not positive sets none).
\<close>

definition exits_zero_before_deadline :: "ForkFunctionRunner \<Rightarrow> world \<Rightarrow> bool" where
  "exits_zero_before_deadline f w =
     (exit_state w = Exited 0 \<and>
      (case exit_after w of
         None \<Rightarrow> False
       | Some t \<Rightarrow> (if ExecTimeout f > 0 then int t < ExecTimeout f else True)))"

text \<open>
  \<^verbatim>\<open>cmd.Wait()\<close> has nothing else to report or to wait for: the wait for the child
  succeeds, and the copying of the streams of the request ends, without an error.
\<close>

definition wait_is_clean :: "world \<Rightarrow> bool" where
  "wait_is_clean w = (wait_error w = None \<and> copy_ends w \<and> copy_error w = None)"

text \<open>The child has not ended by itself when the timeout of the runner has passed.\<close>

definition running_at_deadline :: "ForkFunctionRunner \<Rightarrow> world \<Rightarrow> bool" where
  "running_at_deadline f w =
     (case exit_after w of None \<Rightarrow> True | Some t \<Rightarrow> ExecTimeout f \<le> int t)"

text \<open>
  The error that line 76 makes of a cause: program name, elapsed seconds with two
  decimals, and the text of the cause.
\<close>

definition exited_error :: "FunctionRequest \<Rightarrow> world \<Rightarrow> error \<Rightarrow> error" where
  "exited_error req w cause =
     Process req @ '' exited: after '' @ seconds_2f w (since_start w) @ ''s, error: '' @ cause"

text \<open>
  In closed form: the command as it is when \<^verbatim>\<open>Run\<close> calls \<^verbatim>\<open>cmd.Start()\<close>, the events
  up to that call (lines 41-67), and the deferred calls in the order in which a return
  runs them, \<^verbatim>\<open>Close\<close> (deferred last) before \<^verbatim>\<open>cancel\<close>. That \<^verbatim>\<open>Run\<close> makes exactly
  these is proved below, from the definition of \<open>Run\<close>.
\<close>

definition deferred :: "ForkFunctionRunner \<Rightarrow> FunctionRequest \<Rightarrow> event list" where
  "deferred f req =
     (case InputReader req of Some r \<Rightarrow> [Close r] | None \<Rightarrow> []) @
     (if ExecTimeout f > 0 then [Cancel] else [])"

definition started_cmd :: "ForkFunctionRunner \<Rightarrow> FunctionRequest \<Rightarrow> world \<Rightarrow> Cmd" where
  "started_cmd f req w =
     \<lparr>ctx = (if ExecTimeout f > 0 then WithTimeout (ExecTimeout f) else Background),
      Path = Process req, Args = Process req # ProcessArgs req, Env = Environment req,
      Stdin = InputReader req, Stdout = OutputWriter req,
      Stderr = (case stderr_pipe w of Inl e \<Rightarrow> None | Inr p \<Rightarrow> Some p)\<rparr>"

definition events_before_start ::
    "ForkFunctionRunner \<Rightarrow> FunctionRequest \<Rightarrow> world \<Rightarrow> event list" where
  "events_before_start f req w =
     Log (''Running: '' @ Process req) #
     (if ExecTimeout f > 0 then [NewTimeoutContext (ExecTimeout f)] else []) @
     [BindLoggingPipe ''stderr'' (case stderr_pipe w of Inl e \<Rightarrow> None | Inr p \<Rightarrow> Some p)
        (LogPrefix f) (LogBufferSize f)]"

section \<open>The shape of a run\<close>

lemmas examples = example_world_def example_runner_def example_request_def

text \<open>
  \<^verbatim>\<open>Run\<close> has four ways to go: the child cannot be started; \<^verbatim>\<open>cmd.Wait()\<close> never returns;
  it returns \<^verbatim>\<open>nil\<close>; it returns an error.
\<close>

lemma Run_unfold:
  "Run f req w =
     (case start_error w of
        Some err \<Rightarrow>
          (Some (Inl err),
           events_before_start f req w @ CmdStart (started_cmd f req w) # deferred f req)
      | None \<Rightarrow>
          (case Wait (started_cmd f req w) w of
             None \<Rightarrow>
               (None, events_before_start f req w @ [CmdStart (started_cmd f req w), CmdWait])
           | Some None \<Rightarrow>
               (Some (Inr ()),
                events_before_start f req w @
                [CmdStart (started_cmd f req w), CmdWait,
                 Log (Process req @ '' done: '' @ seconds_2f w (since_start w) @ ''s secs'')] @
                deferred f req)
           | Some (Some err) \<Rightarrow>
               (Some (Inl (exited_error req w err)),
                events_before_start f req w @
                [CmdStart (started_cmd f req w), CmdWait] @ deferred f req)))"
  by (cases "InputReader req"; cases "0 < ExecTimeout f"; cases "stderr_pipe w";
      cases "start_error w")
     (simp_all add: Run_def Start_def StderrPipe_def CommandContext_def started_cmd_def
        events_before_start_def deferred_def exited_error_def split: option.splits)

lemma started_cmd_simps [simp]:
  "ctx (started_cmd f req w) =
     (if ExecTimeout f > 0 then WithTimeout (ExecTimeout f) else Background)"
  "Env (started_cmd f req w) = Environment req"
  "Stdin (started_cmd f req w) = InputReader req"
  "Stdout (started_cmd f req w) = OutputWriter req"
  by (simp_all add: started_cmd_def)

text \<open>Every run calls \<^verbatim>\<open>cmd.Start()\<close> once, on that command.\<close>

lemma CmdStart_in_Run [simp]:
  "CmdStart c \<in> set (snd (Run f req w)) \<longleftrightarrow> c = started_cmd f req w"
  by (auto simp: Run_unfold events_before_start_def deferred_def split: option.splits)


section \<open>Success\<close>

text \<open>
  C1, as amended. When the child starts and ends by itself with status 0 before any
  deadline, and \<^verbatim>\<open>cmd.Wait()\<close> has nothing else to report or to wait for (the wait for
  the child succeeds, and the copying of the streams of the request ends, without an
  error), \<^verbatim>\<open>Run\<close> returns \<^verbatim>\<open>nil\<close>.
\<close>

theorem Run_success:
  "start_error w = None \<Longrightarrow> exits_zero_before_deadline f w \<Longrightarrow> wait_is_clean w \<Longrightarrow>
   fst (Run f req w) = Some (Inr ())"
  by (auto simp: Run_unfold Wait_def copies_def deadline_kills_def exits_zero_before_deadline_def
      wait_is_clean_def split: option.splits if_splits)

theorem Run_success_witness:
  "start_error example_world = None \<and>
   exits_zero_before_deadline example_runner example_world \<and>
   wait_is_clean example_world \<and>
   fst (Run example_runner example_request example_world) = Some (Inr ())"
  using Run_success [of example_world example_runner example_request]
  by (simp add: examples exits_zero_before_deadline_def wait_is_clean_def)

text \<open>
  C1 as stated fails. In each of three worlds the child starts and ends with status 0
  after 30 ms, with the deadline at ten seconds. In the first, writing to the output sink
  failed: \<^verbatim>\<open>cmd.Wait()\<close> returns the error of the copy and \<^verbatim>\<open>Run\<close> returns a failure
  (line 76). In the second, the input stream blocks in \<^verbatim>\<open>Read\<close>: \<^verbatim>\<open>cmd.Wait()\<close> waits
  for the copying and \<^verbatim>\<open>Run\<close> does not return. In the third, the wait for the child
  itself fails, and \<^verbatim>\<open>Run\<close> returns that failure.
\<close>

theorem exit_zero_failure_counterexample:
  "start_error sink_fails_world = None \<and>
   exits_zero_before_deadline example_runner sink_fails_world \<and>
   fst (Run example_runner example_request sink_fails_world) =
     Some (Inl ''/bin/cat exited: after 0.03s, error: write: broken pipe'') \<and>
   fst (Run example_runner example_request sink_fails_world) \<noteq> Some (Inr ()) \<and>
   start_error reader_blocks_world = None \<and>
   exits_zero_before_deadline example_runner reader_blocks_world \<and>
   fst (Run example_runner example_request reader_blocks_world) = None \<and>
   start_error wait_fails_world = None \<and>
   exits_zero_before_deadline example_runner wait_fails_world \<and>
   fst (Run example_runner example_request wait_fails_world) =
     Some (Inl ''/bin/cat exited: after 0.03s, error: wait: no child processes'')"
  by (simp add: Run_unfold Wait_def copies_def deadline_kills_def exited_error_def examples
      sink_fails_world_def reader_blocks_world_def wait_fails_world_def
      exits_zero_before_deadline_def example_seconds_2f_def decimal.simps)

section \<open>The error of a failure\<close>




section \<open>The input stream\<close>

text \<open>
  C3. When the request has an input stream, every run that returns, with success or
  with any error (a status that is not 0, a start failure, a kill at the deadline), has
  closed that stream exactly once by then.
\<close>

theorem input_closed_once:
  "InputReader req = Some r \<Longrightarrow> fst (Run f req w) = Some res \<Longrightarrow>
   count_list (snd (Run f req w)) (Close r) = 1"
  by (auto simp: Run_unfold events_before_start_def deferred_def split: option.splits)

theorem input_closed_once_witness:
  "InputReader example_request = Some 0 \<and>
   fst (Run example_runner example_request sleeper_world) =
     Some (Inl ''/bin/cat exited: after 10.00s, error: signal: killed'') \<and>
   count_list (snd (Run example_runner example_request sleeper_world)) (Close 0) = 1"
  using input_closed_once [of example_request 0 example_runner sleeper_world]
  by (simp add: Run_unfold Wait_def copies_def deadline_kills_def exited_error_def examples
      sleeper_world_def example_seconds_2f_def decimal.simps)

section \<open>The deadline\<close>

text \<open>
  C4, as amended. With a positive timeout, when the child has started and has not ended
  by itself when the timeout has passed: the command runs under the context with that
  timeout, so the child is killed; \<^verbatim>\<open>Run\<close> never returns success; when it returns, it
  returns the failure of line 76, with the elapsed seconds; and it does return, with
  the cause \<open>signal: killed\<close> unless the wait for the child itself failed, when there
  is nothing to copy or the copying of the streams of the request ends.
\<close>

theorem deadline_kill_fails:
  "0 < ExecTimeout f \<Longrightarrow> start_error w = None \<Longrightarrow> running_at_deadline f w \<Longrightarrow>
   (\<exists>c. CmdStart c \<in> set (snd (Run f req w)) \<and> ctx c = WithTimeout (ExecTimeout f) \<and>
        deadline_kills (ctx c) w) \<and>
   fst (Run f req w) \<noteq> Some (Inr ()) \<and>
   (fst (Run f req w) = None \<or>
    (\<exists>cause. fst (Run f req w) = Some (Inl (exited_error req w cause)))) \<and>
   (copy_ends w \<or> (InputReader req = None \<and> OutputWriter req = None) \<longrightarrow>
      fst (Run f req w) =
        Some (Inl (exited_error req w
          (case wait_error w of Some e \<Rightarrow> e | None \<Rightarrow> ''signal: killed''))))"
proof -
  assume t: "0 < ExecTimeout f" and s: "start_error w = None"
    and r: "running_at_deadline f w"
  have k: "deadline_kills (ctx (started_cmd f req w)) w"
    using t r by (simp add: running_at_deadline_def deadline_kills_def)
  have c: "ctx (started_cmd f req w) = WithTimeout (ExecTimeout f)"
    using t by simp
  have blocked: "copies (started_cmd f req w) \<and> \<not> copy_ends w \<Longrightarrow>
      fst (Run f req w) = None"
    using s k by (simp add: Run_unfold Wait_def)
  have returns: "\<not> (copies (started_cmd f req w) \<and> \<not> copy_ends w) \<Longrightarrow>
      fst (Run f req w) =
        Some (Inl (exited_error req w
          (case wait_error w of Some e \<Rightarrow> e | None \<Rightarrow> ''signal: killed'')))"
    using s k by (auto simp: Run_unfold Wait_def split: option.splits)
  have killed: "\<exists>c. CmdStart c \<in> set (snd (Run f req w)) \<and>
      ctx c = WithTimeout (ExecTimeout f) \<and> deadline_kills (ctx c) w"
    using k c by simp
  show ?thesis
  proof (cases "copies (started_cmd f req w) \<and> \<not> copy_ends w")
    case True
    with blocked have "fst (Run f req w) = None"
      by blast
    moreover from True
    have "\<not> (copy_ends w \<or> (InputReader req = None \<and> OutputWriter req = None))"
      by (simp add: copies_def)
    ultimately show ?thesis
      using killed t by simp
  next
    case False
    with returns have "fst (Run f req w) =
        Some (Inl (exited_error req w
          (case wait_error w of Some e \<Rightarrow> e | None \<Rightarrow> ''signal: killed'')))"
      by blast
    then show ?thesis
      using killed t by auto
  qed
qed

theorem deadline_kill_fails_witness:
  "0 < ExecTimeout example_runner \<and> start_error sleeper_world = None \<and>
   running_at_deadline example_runner sleeper_world \<and> copy_ends sleeper_world \<and>
   fst (Run example_runner example_request sleeper_world) =
     Some (Inl ''/bin/cat exited: after 10.00s, error: signal: killed'')"
  using deadline_kill_fails [of example_runner sleeper_world example_request]
  by (simp add: examples sleeper_world_def running_at_deadline_def exited_error_def
      example_seconds_2f_def decimal.simps)

text \<open>
  C4 as stated fails: the timeout is ten seconds and the child, which never ends by
  itself, is killed at the deadline, but a process it started keeps the output pipe
  open. \<^verbatim>\<open>cmd.Wait()\<close> goes on waiting for the copying, and \<^verbatim>\<open>Run\<close> returns no failure:
  it does not return.
\<close>

theorem deadline_kill_counterexample:
  "0 < ExecTimeout example_runner \<and> start_error pipe_held_world = None \<and>
   running_at_deadline example_runner pipe_held_world \<and>
   fst (Run example_runner example_request pipe_held_world) = None"
  by (simp add: Run_unfold Wait_def copies_def deadline_kills_def examples
      pipe_held_world_def running_at_deadline_def)

text \<open>
  C5. \<^verbatim>\<open>Run\<close> creates a context with a deadline exactly when the timeout is positive,
  and the command runs under that context; with a timeout that is zero or negative the
  command runs under \<^verbatim>\<open>context.Background()\<close>, under which no deadline ever kills the
  child, whatever the child does.
\<close>

theorem deadline_iff_positive_timeout:
  "((\<exists>d. NewTimeoutContext d \<in> set (snd (Run f req w))) \<longleftrightarrow> 0 < ExecTimeout f) \<and>
   (\<exists>c. CmdStart c \<in> set (snd (Run f req w))) \<and>
   (\<forall>c. CmdStart c \<in> set (snd (Run f req w)) \<longrightarrow>
      ctx c = (if 0 < ExecTimeout f then WithTimeout (ExecTimeout f) else Background)) \<and>
   (ExecTimeout f \<le> 0 \<longrightarrow>
      (\<forall>c w'. CmdStart c \<in> set (snd (Run f req w)) \<longrightarrow> \<not> deadline_kills (ctx c) w'))"
proof -
  have "(\<exists>d. NewTimeoutContext d \<in> set (snd (Run f req w))) \<longleftrightarrow> 0 < ExecTimeout f"
    by (auto simp: Run_unfold events_before_start_def deferred_def split: option.splits)
  then show ?thesis
    by (simp add: deadline_kills_def)
qed

theorem deadline_iff_positive_timeout_witness:
  "ExecTimeout untimed_runner \<le> 0 \<and>
   (\<exists>c. CmdStart c \<in> set (snd (Run untimed_runner example_request sleeper_world)) \<and>
        ctx c = Background \<and> \<not> deadline_kills (ctx c) sleeper_world) \<and>
   fst (Run untimed_runner example_request sleeper_world) = None \<and>
   0 < ExecTimeout example_runner \<and>
   (\<exists>d. NewTimeoutContext d \<in> set (snd (Run example_runner example_request sleeper_world)))"
proof -
  have t: "ExecTimeout untimed_runner \<le> 0" "0 < ExecTimeout example_runner"
    by (simp_all add: examples untimed_runner_def sleeper_world_def)
  have n: "fst (Run untimed_runner example_request sleeper_world) = None"
    by (simp add: Run_unfold Wait_def copies_def deadline_kills_def examples untimed_runner_def
        sleeper_world_def)
  from deadline_iff_positive_timeout [of untimed_runner example_request sleeper_world]
    deadline_iff_positive_timeout [of example_runner example_request sleeper_world]
  show ?thesis using t n by auto
qed

section \<open>Start failure\<close>

text \<open>
  C6. When the child cannot be started, \<^verbatim>\<open>Run\<close> returns the start error at once: it
  never calls \<^verbatim>\<open>cmd.Wait()\<close>, and after the call of \<^verbatim>\<open>cmd.Start()\<close> nothing happens but
  the deferred calls (closing the input stream, cancelling the context). Before it there
  are only the start notice, the creation of the context and the call of the stream
  binder.
\<close>

theorem start_failure_returns_at_once:
  "start_error w = Some err \<Longrightarrow>
   fst (Run f req w) = Some (Inl err) \<and>
   CmdWait \<notin> set (snd (Run f req w)) \<and>
   (\<exists>before c. snd (Run f req w) = before @ CmdStart c # deferred f req \<and>
      set before \<subseteq>
        {Log (''Running: '' @ Process req), NewTimeoutContext (ExecTimeout f)} \<union>
        {e. \<exists>p. e = BindLoggingPipe ''stderr'' p (LogPrefix f) (LogBufferSize f)})"
  by (auto simp: Run_unfold events_before_start_def deferred_def split: option.splits)

theorem start_failure_returns_at_once_witness:
  "start_error no_start_world = Some ''fork/exec /bin/cat: permission denied'' \<and>
   fst (Run example_runner example_request no_start_world) =
     Some (Inl ''fork/exec /bin/cat: permission denied'') \<and>
   CmdWait \<notin> set (snd (Run example_runner example_request no_start_world))"
  using start_failure_returns_at_once
    [of no_start_world "''fork/exec /bin/cat: permission denied''"
      example_runner example_request]
  by (simp add: examples no_start_world_def)

section \<open>The environment of the child\<close>

text \<open>
  C7. When the environment of the request is an empty sequence (empty, not nil), the
  command is started with that empty environment and the child observes an empty
  environment, whatever the environment of the invoker is.
\<close>

theorem empty_environment_is_empty:
  "Environment req = Some [] \<Longrightarrow>
   (\<exists>c. CmdStart c \<in> set (snd (Run f req w))) \<and>
   (\<forall>c. CmdStart c \<in> set (snd (Run f req w)) \<longrightarrow>
      Env c = Some [] \<and> child_environ c w = [])"
  by (simp add: child_environ_def)

theorem empty_environment_is_empty_witness:
  "Environment example_request = Some [] \<and> Environ example_world \<noteq> [] \<and>
   (\<exists>c. CmdStart c \<in> set (snd (Run example_runner example_request example_world)) \<and>
        child_environ c example_world = [])"
proof -
  have e: "Environment example_request = Some []" "Environ example_world \<noteq> []"
    by (simp_all add: examples)
  from empty_environment_is_empty [OF e(1), of example_runner example_world]
  show ?thesis using e by blast
qed

text \<open>
  C9. When the environment of the request is nil, the command is started with a nil
  environment and the child observes the whole environment of the invoker; the same
  request with an empty environment gives the child an empty one.
\<close>

theorem nil_environment_inherits:
  "Environment req = None \<Longrightarrow>
   (\<exists>c. CmdStart c \<in> set (snd (Run f req w))) \<and>
   (\<forall>c. CmdStart c \<in> set (snd (Run f req w)) \<longrightarrow>
      Env c = None \<and> child_environ c w = Environ w) \<and>
   (\<forall>c. CmdStart c \<in> set (snd (Run f (req\<lparr>Environment := Some []\<rparr>) w)) \<longrightarrow>
      child_environ c w = [])"
  by (simp add: child_environ_def)

theorem nil_environment_inherits_witness:
  "Environment (example_request\<lparr>Environment := None\<rparr>) = None \<and>
   (\<exists>c. CmdStart c \<in> set (snd (Run example_runner
            (example_request\<lparr>Environment := None\<rparr>) example_world)) \<and>
        child_environ c example_world = [''PATH=/usr/bin'', ''HOME=/root''])"
proof -
  have e: "Environment (example_request\<lparr>Environment := None\<rparr>) = None"
    "Environ example_world = [''PATH=/usr/bin'', ''HOME=/root'']"
    by (simp_all add: examples)
  from nil_environment_inherits [OF e(1), of example_runner example_world]
  show ?thesis using e by metis
qed

section \<open>The content length\<close>

text \<open>
  C8. Two requests that differ only in \<^verbatim>\<open>ContentLength\<close> behave the same: the same
  result and the same events (so the same command, with the same streams attached),
  whatever the operating system and the child answer. \<^verbatim>\<open>Run\<close> never reads the field.
\<close>

theorem Run_ignores_ContentLength:
  "Run f (req\<lparr>ContentLength := n\<rparr>) w = Run f req w"
  by (simp add: Run_unfold started_cmd_def events_before_start_def deferred_def
      exited_error_def split: option.splits)

section \<open>The pipe of standard error\<close>

text \<open>
  C10. When the pipe for the child's standard error cannot be created, the error is
  dropped: \<^verbatim>\<open>Run\<close> returns what it returns when the pipe can be created, and it calls the
  stream binder with a nil source.
\<close>

theorem stderr_pipe_error_discarded:
  "stderr_pipe w = Inl e \<Longrightarrow>
   fst (Run f req w) = fst (Run f req (w\<lparr>stderr_pipe := Inr p\<rparr>)) \<and>
   BindLoggingPipe ''stderr'' None (LogPrefix f) (LogBufferSize f)
     \<in> set (snd (Run f req w))"
proof -
  assume pipe: "stderr_pipe w = Inl e"
  let ?w' = "w\<lparr>stderr_pipe := Inr p\<rparr>"
  have "Wait (started_cmd f req ?w') ?w' = Wait (started_cmd f req w) w"
    by (auto simp: Wait_def copies_def deadline_kills_def split: option.splits)
  then have "fst (Run f req w) = fst (Run f req ?w')"
    by (simp add: Run_unfold exited_error_def split: option.splits)
  moreover have "BindLoggingPipe ''stderr'' None (LogPrefix f) (LogBufferSize f)
      \<in> set (snd (Run f req w))"
    using pipe by (simp add: Run_unfold events_before_start_def split: option.splits)
  ultimately show ?thesis by simp
qed

theorem stderr_pipe_error_discarded_witness:
  "stderr_pipe no_pipe_world = Inl ''pipe2: too many open files'' \<and>
   fst (Run example_runner example_request no_pipe_world) = Some (Inr ()) \<and>
   BindLoggingPipe ''stderr'' None True 65536
     \<in> set (snd (Run example_runner example_request no_pipe_world))"
proof -
  have e: "stderr_pipe no_pipe_world = Inl ''pipe2: too many open files''"
    "LogPrefix example_runner = True" "LogBufferSize example_runner = 65536"
    by (simp_all add: examples no_pipe_world_def)
  have r: "fst (Run example_runner example_request no_pipe_world) = Some (Inr ())"
    by (simp add: Run_unfold Wait_def copies_def deadline_kills_def examples no_pipe_world_def)
  from stderr_pipe_error_discarded [OF e(1), of example_runner example_request]
  show ?thesis using e r by simp
qed

end
